theory Spec2Isabelle
  imports Complex_Main
begin

section \<open>Conventions of the embedding\<close>

text \<open>
  The handlers of \<^verbatim>\<open>functions/src/data-capture-engine.ts\<close> (the Daily Aggregator) and of the
  AI insight engines (Cognitive Mirror, Emotion Forecast, Behavioral Recovery, Life Events)
  are embedded as HOL functions.

  \<^item> A number read from a document is a rational (\<^typ>\<open>rat\<close>). In the aggregator, the
    mirror builder, the forecast engine and the recovery detector the thresholds, caps and
    roundings are compared on exact values. In the life-event detector, whose averages
    divide by seven and more, every sum, quotient and difference is rounded to double
    precision as IEEE 754 prescribes (type \<open>double\<close>).
  \<^item> A document field that may be absent is an \<^typ>\<open>'a option\<close>; the idiom
    \<^verbatim>\<open>x || 0\<close> is \<open>or_zero\<close>.
  \<^item> A calendar date key (\<^verbatim>\<open>YYYY-MM-DD\<close>) is the number of days since 1970-01-01 (UTC).
  \<^item> The operations of a handler that can throw are those of the store. The result of a
    query is either an exception (\<open>Inl\<close>) or the list of the documents of the snapshot
    (\<open>Inr\<close>), in the order of the snapshot. The result of a write in a scheduled job is
    either an exception (\<open>Some\<close>) or success (\<open>None\<close>); the documents written are
    collected in the order of the writes.
  \<^item> The two triggered detectors and the per-user body of the life-event job are embedded
    from the point where their query has returned to the record they hand to the store.
  \<^item> Random document ids and wall-clock timestamps are left out of the written records.
\<close>

type_synonym number = rat

datatype error = Exception string

datatype log_entry = LogInfo string | LogError string error

definition or_zero :: "number option \<Rightarrow> number" where
  "or_zero v = (case v of None \<Rightarrow> 0 | Some x \<Rightarrow> x)"

text \<open>\<^verbatim>\<open>Math.round\<close>: the nearest integer, a tie going up.\<close>

definition Math_round :: "number \<Rightarrow> number" where
  "Math_round x = of_int \<lfloor>x + 1 / 2\<rfloor>"

text \<open>The truthiness of a nullable number: \<^verbatim>\<open>null\<close> and \<^verbatim>\<open>0\<close> are falsy.\<close>

definition truthy :: "number option \<Rightarrow> bool" where
  "truthy v = (case v of None \<Rightarrow> False | Some x \<Rightarrow> x \<noteq> 0)"

section \<open>Daily Aggregator: \<^verbatim>\<open>aggregateDailyHealthMetrics\<close>\<close>

record telemetryEvent =
  te_eventType :: string
  te_eventDuration :: "number option"

record rhythmMap =
  rm_userId :: string
  rm_date :: int
  rm_sleepHours :: number
  rm_movementScore :: number
  rm_rhythmState :: string
  rm_wakeTime :: "number option"
  rm_bedTime :: "number option"
  rm_deepSleepMinutes :: number
  rm_restfulnessScore :: number

record healthEcho =
  he_userId :: string
  he_date :: int
  he_heartRateAvg :: number
  he_movementScore :: number
  he_wellnessIndex :: number
  he_stepsCount :: nat
  he_activeMinutes :: number
  he_stressIndex :: number

text \<open>The four variables the loop over the telemetry documents works on.\<close>

record metrics =
  totalMovement :: number
  sleepStart :: "number option"
  sleepEnd :: "number option"
  motionEvents :: nat

definition metrics_init :: metrics where
  "metrics_init = \<lparr>totalMovement = 0, sleepStart = None, sleepEnd = None, motionEvents = 0\<rparr>"

text \<open>The body of \<^verbatim>\<open>telemetrySnapshot.docs.forEach\<close>.\<close>

definition telemetry_step :: "metrics \<Rightarrow> telemetryEvent \<Rightarrow> metrics" where
  "telemetry_step m d =
     (if te_eventType d = ''motion_event''
      then m\<lparr>totalMovement := totalMovement m + or_zero (te_eventDuration d),
             motionEvents := motionEvents m + 1\<rparr>
      else m)"

definition movementScore_of :: "metrics \<Rightarrow> number" where
  "movementScore_of m = min 100 (totalMovement m / 60)"

definition sleepHours_of :: "metrics \<Rightarrow> number" where
  "sleepHours_of m =
     (if truthy (sleepStart m) \<and> truthy (sleepEnd m)
      then (or_zero (sleepEnd m) - or_zero (sleepStart m)) / (1000 * 60 * 60)
      else 8)"

text \<open>The rhythm-state classification (\<^verbatim>\<open>let rhythmState = "Stable"; if ... else if ...\<close>).\<close>

definition rhythmState_of :: "number \<Rightarrow> number \<Rightarrow> nat \<Rightarrow> string" where
  "rhythmState_of sleepHours movementScore motionEventCount =
     (if sleepHours < 6 \<or> movementScore < 20 then ''Off-Rhythm''
      else if movementScore > 80 \<and> motionEventCount > 100 then ''Overstimulated''
      else ''Stable'')"

text \<open>
  One iteration of the loop over the users, after the telemetry query has returned:
  \<open>None\<close> is the \<^verbatim>\<open>continue\<close> of an empty snapshot, otherwise the two records written.
\<close>

definition aggregate_user ::
  "int \<Rightarrow> string \<Rightarrow> telemetryEvent list \<Rightarrow> (rhythmMap \<times> healthEcho) option" where
  "aggregate_user dateKey userId docs =
     (if docs = [] then None
      else
        let m = foldl telemetry_step metrics_init docs;
            movementScore = movementScore_of m;
            sleepHours = sleepHours_of m;
            rhythmState = rhythmState_of sleepHours movementScore (motionEvents m)
        in Some
          (\<lparr>rm_userId = userId, rm_date = dateKey, rm_sleepHours = sleepHours,
            rm_movementScore = movementScore, rm_rhythmState = rhythmState,
            rm_wakeTime = sleepEnd m, rm_bedTime = sleepStart m,
            rm_deepSleepMinutes = sleepHours * 60 * (2 / 10),
            rm_restfulnessScore = min 100 (sleepHours * (25 / 2))\<rparr>,
           \<lparr>he_userId = userId, he_date = dateKey, he_heartRateAvg = 72,
            he_movementScore = movementScore,
            he_wellnessIndex = (movementScore + sleepHours * (25 / 2)) / 2,
            he_stepsCount = motionEvents m * 100,
            he_activeMinutes = totalMovement m / 60,
            he_stressIndex =
              (if rhythmState = ''Overstimulated'' then 80
               else if rhythmState = ''Off-Rhythm'' then 60 else 30)\<rparr>))"

text \<open>The store as the job reads it, and what the job leaves behind.\<close>

record capture_db =
  db_users :: "error + string list"
  db_telemetryEvents :: "string \<Rightarrow> error + telemetryEvent list"
  db_set_rhythmMap :: "rhythmMap \<Rightarrow> error option"
  db_set_healthEcho :: "healthEcho \<Rightarrow> error option"

record capture_out =
  out_rhythmMap :: "rhythmMap list"
  out_healthEcho :: "healthEcho list"
  out_log :: "log_entry list"

definition capture_out_init :: capture_out where
  "capture_out_init =
     \<lparr>out_rhythmMap = [], out_healthEcho = [],
      out_log = [LogInfo ''Starting daily health metrics aggregation'']\<rparr>"

text \<open>
  The body of the \<^verbatim>\<open>for (const userDoc of usersSnapshot.docs)\<close> loop: the telemetry
  query, then the write of the RhythmMap, then the write of the HealthEcho, each awaited.
  The second component is the exception that ended the iteration, if any; a RhythmMap
  written before the HealthEcho write threw stays written.
\<close>

definition aggregate_iteration ::
  "int \<Rightarrow> capture_db \<Rightarrow> string \<Rightarrow> capture_out \<Rightarrow> capture_out \<times> error option" where
  "aggregate_iteration dateKey db userId out =
     (case db_telemetryEvents db userId of
        Inl e \<Rightarrow> (out, Some e)
      | Inr docs \<Rightarrow>
          (case aggregate_user dateKey userId docs of
             None \<Rightarrow> (out, None)
           | Some (rm, he) \<Rightarrow>
               (case db_set_rhythmMap db rm of
                  Some e \<Rightarrow> (out, Some e)
                | None \<Rightarrow>
                    (case db_set_healthEcho db he of
                       Some e \<Rightarrow> (out\<lparr>out_rhythmMap := out_rhythmMap out @ [rm]\<rparr>, Some e)
                     | None \<Rightarrow>
                         (out\<lparr>out_rhythmMap := out_rhythmMap out @ [rm],
                               out_healthEcho := out_healthEcho out @ [he],
                               out_log := out_log out
                                 @ [LogInfo (''Health metrics aggregated for user ''
                                      @ userId)]\<rparr>,
                          None)))))"

text \<open>
  The loop runs inside the one \<^verbatim>\<open>try\<close> block of the handler, so an exception leaves
  the loop.
\<close>

fun aggregate_loop ::
  "int \<Rightarrow> capture_db \<Rightarrow> string list \<Rightarrow> capture_out \<Rightarrow> capture_out \<times> error option" where
  "aggregate_loop dateKey db [] out = (out, None)"
| "aggregate_loop dateKey db (userId # rest) out =
     (case aggregate_iteration dateKey db userId out of
        (out', Some e) \<Rightarrow> (out', Some e)
      | (out', None) \<Rightarrow> aggregate_loop dateKey db rest out')"

definition aggregateDailyHealthMetrics :: "int \<Rightarrow> capture_db \<Rightarrow> capture_out" where
  "aggregateDailyHealthMetrics dateKey db =
     (case db_users db of
        Inl e \<Rightarrow> capture_out_init\<lparr>out_log := out_log capture_out_init
                   @ [LogError ''Error aggregating daily health metrics:'' e]\<rparr>
      | Inr users \<Rightarrow>
          (case aggregate_loop dateKey db users capture_out_init of
             (out, None) \<Rightarrow> out
           | (out, Some e) \<Rightarrow>
               out\<lparr>out_log := out_log out
                 @ [LogError ''Error aggregating daily health metrics:'' e]\<rparr>))"

section \<open>Cognitive Mirror Builder: \<^verbatim>\<open>generateCognitiveMirror\<close>\<close>

record voiceEvent =
  ve_sentimentScore :: "number option"

record deviceSignal =
  ds_notificationCount :: "number option"
  ds_screenTimeMinutes :: "number option"

record shadowCognition =
  sc_frictionTaps :: "number option"

record cognitiveMirror =
  cm_userId :: string
  cm_date :: int
  cm_moodScore :: number
  cm_stressIndex :: number
  cm_highlightInsights :: "string list"
  cm_energyLevel :: number
  cm_socialConnection :: number
  cm_purposeAlignment :: number

text \<open>The mood score before rounding: 50, or the clamped average sentiment.\<close>

definition moodScore_of :: "voiceEvent list \<Rightarrow> number" where
  "moodScore_of voiceEvents =
     (if voiceEvents = [] then 50
      else
        let totalSentiment = foldl (\<lambda>s doc. s + or_zero (ve_sentimentScore doc)) 0 voiceEvents
        in max 0 (min 100 (50 + totalSentiment / of_nat (length voiceEvents) * 50)))"

definition notificationStress :: "deviceSignal \<Rightarrow> number" where
  "notificationStress deviceData = min 40 (or_zero (ds_notificationCount deviceData) * 2)"

definition screenTimeStress :: "deviceSignal \<Rightarrow> number" where
  "screenTimeStress deviceData = min 30 (or_zero (ds_screenTimeMinutes deviceData) / 10)"

definition frictionStress :: "shadowCognition \<Rightarrow> number" where
  "frictionStress shadowData = min 30 (or_zero (sc_frictionTaps shadowData) * 3)"

text \<open>
  The stress index before rounding. Only the first document of each snapshot is read, and a
  term is added only when its snapshot is not empty; the one clamp is \<^verbatim>\<open>Math.min(100, _)\<close>.
\<close>

definition stressIndex_of :: "deviceSignal list \<Rightarrow> shadowCognition list \<Rightarrow> number" where
  "stressIndex_of deviceSignals shadowCognitions =
     (let stressIndex = 30;
          stressIndex =
            (case deviceSignals of
               [] \<Rightarrow> stressIndex
             | deviceData # _ \<Rightarrow>
                 stressIndex + (notificationStress deviceData + screenTimeStress deviceData));
          stressIndex =
            (case shadowCognitions of
               [] \<Rightarrow> stressIndex
             | shadowData # _ \<Rightarrow> stressIndex + frictionStress shadowData)
      in min 100 stressIndex)"

definition mood_insights :: "number \<Rightarrow> string list" where
  "mood_insights moodScore =
     (if moodScore > 70
      then [''You had a particularly positive day with uplifting conversations'']
      else if moodScore < 30
      then [''Today felt heavy - your voice carried more tension than usual'']
      else [])"

definition stress_insights :: "number \<Rightarrow> string list" where
  "stress_insights stressIndex =
     (if stressIndex > 70
      then [''High digital activity and friction suggests elevated stress'']
      else if stressIndex < 30
      then [''You maintained good digital balance today'']
      else [])"

definition rhythm_insights :: "rhythmMap list \<Rightarrow> string list" where
  "rhythm_insights rhythmMaps =
     (case rhythmMaps of
        [] \<Rightarrow> []
      | rhythmData # _ \<Rightarrow>
          (if rm_rhythmState rhythmData = ''Stable''
           then [''Your sleep and movement patterns were well-balanced'']
           else if rm_rhythmState rhythmData = ''Off-Rhythm''
           then [''Your natural rhythms were disrupted today'']
           else []))"

definition highlightInsights_of :: "number \<Rightarrow> number \<Rightarrow> rhythmMap list \<Rightarrow> string list" where
  "highlightInsights_of moodScore stressIndex rhythmMaps =
     mood_insights moodScore @ stress_insights stressIndex @ rhythm_insights rhythmMaps"

text \<open>One iteration of the loop over the users, after the four queries have returned.\<close>

definition mirror_user ::
  "int \<Rightarrow> string \<Rightarrow> voiceEvent list \<Rightarrow> deviceSignal list \<Rightarrow> shadowCognition list
     \<Rightarrow> rhythmMap list \<Rightarrow> cognitiveMirror" where
  "mirror_user dateKey userId voiceEvents deviceSignals shadowCognitions rhythmMaps =
     (let moodScore = moodScore_of voiceEvents;
          stressIndex = stressIndex_of deviceSignals shadowCognitions
      in \<lparr>cm_userId = userId, cm_date = dateKey,
          cm_moodScore = Math_round moodScore,
          cm_stressIndex = Math_round stressIndex,
          cm_highlightInsights = highlightInsights_of moodScore stressIndex rhythmMaps,
          cm_energyLevel = 100 - stressIndex,
          cm_socialConnection = min 100 (of_nat (length voiceEvents) * 10),
          cm_purposeAlignment = Math_round ((moodScore + (100 - stressIndex)) / 2)\<rparr>)"

record mirror_db =
  mdb_users :: "error + string list"
  mdb_voiceEvents :: "string \<Rightarrow> error + voiceEvent list"
  mdb_deviceSignals :: "string \<Rightarrow> error + deviceSignal list"
  mdb_shadowCognition :: "string \<Rightarrow> error + shadowCognition list"
  mdb_rhythmMap :: "string \<Rightarrow> error + rhythmMap list"
  mdb_set_cognitiveMirror :: "cognitiveMirror \<Rightarrow> error option"

record mirror_out =
  out_cognitiveMirror :: "cognitiveMirror list"
  out_mirror_log :: "log_entry list"

definition mirror_out_init :: mirror_out where
  "mirror_out_init =
     \<lparr>out_cognitiveMirror = [],
      out_mirror_log = [LogInfo ''Starting cognitive mirror generation'']\<rparr>"

text \<open>
  \<^verbatim>\<open>await Promise.all([...])\<close> over the four queries of one user: it throws as soon as
  one of them has thrown (here: the first in the order of the array).
\<close>

definition fetch_passive ::
  "mirror_db \<Rightarrow> string
     \<Rightarrow> error + (voiceEvent list \<times> deviceSignal list \<times> shadowCognition list \<times> rhythmMap list)"
  where
  "fetch_passive db userId =
     (case mdb_voiceEvents db userId of
        Inl e \<Rightarrow> Inl e
      | Inr voiceEvents \<Rightarrow>
     (case mdb_deviceSignals db userId of
        Inl e \<Rightarrow> Inl e
      | Inr deviceSignals \<Rightarrow>
     (case mdb_shadowCognition db userId of
        Inl e \<Rightarrow> Inl e
      | Inr shadowCognitions \<Rightarrow>
     (case mdb_rhythmMap db userId of
        Inl e \<Rightarrow> Inl e
      | Inr rhythmMaps \<Rightarrow>
          Inr (voiceEvents, deviceSignals, shadowCognitions, rhythmMaps)))))"

text \<open>The body of the loop over the users: the four queries, then the awaited write.\<close>

definition mirror_iteration ::
  "int \<Rightarrow> mirror_db \<Rightarrow> string \<Rightarrow> mirror_out \<Rightarrow> mirror_out \<times> error option" where
  "mirror_iteration dateKey db userId out =
     (case fetch_passive db userId of
        Inl e \<Rightarrow> (out, Some e)
      | Inr (voiceEvents, deviceSignals, shadowCognitions, rhythmMaps) \<Rightarrow>
          (let cognitiveMirror =
                 mirror_user dateKey userId voiceEvents deviceSignals shadowCognitions rhythmMaps
           in case mdb_set_cognitiveMirror db cognitiveMirror of
                Some e \<Rightarrow> (out, Some e)
              | None \<Rightarrow>
                  (out\<lparr>out_cognitiveMirror := out_cognitiveMirror out @ [cognitiveMirror],
                        out_mirror_log := out_mirror_log out
                          @ [LogInfo (''Cognitive mirror generated for user '' @ userId)]\<rparr>,
                   None)))"

fun mirror_loop ::
  "int \<Rightarrow> mirror_db \<Rightarrow> string list \<Rightarrow> mirror_out \<Rightarrow> mirror_out \<times> error option" where
  "mirror_loop dateKey db [] out = (out, None)"
| "mirror_loop dateKey db (userId # rest) out =
     (case mirror_iteration dateKey db userId out of
        (out', Some e) \<Rightarrow> (out', Some e)
      | (out', None) \<Rightarrow> mirror_loop dateKey db rest out')"

definition generateCognitiveMirror :: "int \<Rightarrow> mirror_db \<Rightarrow> mirror_out" where
  "generateCognitiveMirror dateKey db =
     (case mdb_users db of
        Inl e \<Rightarrow> mirror_out_init\<lparr>out_mirror_log := out_mirror_log mirror_out_init
                   @ [LogError ''Error generating cognitive mirror:'' e]\<rparr>
      | Inr users \<Rightarrow>
          (case mirror_loop dateKey db users mirror_out_init of
             (out, None) \<Rightarrow> out
           | (out, Some e) \<Rightarrow>
               out\<lparr>out_mirror_log := out_mirror_log out
                 @ [LogError ''Error generating cognitive mirror:'' e]\<rparr>))"

section \<open>Forecast Engine: \<^verbatim>\<open>generateEmotionForecast\<close>\<close>

record emotionForecast =
  ef_userId :: string
  ef_date :: int
  ef_predictedMood :: string
  ef_confidence :: number
  ef_predictionHorizonDays :: nat
  ef_influencingFactors :: "string list"
  ef_recommendedActions :: "string list"

text \<open>\<^verbatim>\<open>Date.getDay\<close> of a date key: 0 is Sunday; 1970-01-01 was a Thursday.\<close>

definition getDay :: "int \<Rightarrow> nat" where
  "getDay d = nat ((d + 4) mod 7)"

definition average_of :: "number list \<Rightarrow> nat \<Rightarrow> number" where
  "average_of xs n = foldl (+) 0 xs / of_nat n"

text \<open>
  The day-of-week estimate: the prediction and its confidence before the trend adjustment.
\<close>

definition seasonal_estimate :: "cognitiveMirror list \<Rightarrow> string \<times> number" where
  "seasonal_estimate sameDayHistory =
     (if length sameDayHistory > 2
      then
        let avgSameDayMood =
              average_of (map cm_moodScore (take 4 sameDayHistory))
                (min 4 (length sameDayHistory))
        in if avgSameDayMood > 70 then (''positive'', 75 / 100)
           else if avgSameDayMood < 40 then (''challenging'', 7 / 10)
           else (''stable'', 6 / 10)
      else (''stable'', 6 / 10))"

text \<open>The trend adjustment (\<^verbatim>\<open>if (trendSlope > 5) ... else if (trendSlope < -5) ...\<close>).\<close>

definition trend_adjust :: "number \<Rightarrow> string \<times> number \<Rightarrow> string \<times> number" where
  "trend_adjust trendSlope pc =
     (case pc of (predictedMood, confidence) \<Rightarrow>
        if trendSlope > 5
        then (if predictedMood = ''challenging'' then ''stable'' else ''positive'',
              confidence + 1 / 10)
        else if trendSlope < - 5
        then (if predictedMood = ''positive'' then ''stable'' else ''challenging'',
              confidence + 1 / 10)
        else (predictedMood, confidence))"

definition influencingFactors_of :: "number \<Rightarrow> number \<Rightarrow> string list" where
  "influencingFactors_of avgRecentStress trendSlope =
     (if avgRecentStress > 60 then [''elevated stress patterns''] else [])
     @ (if trendSlope > 5 then [''improving mood trend'']
        else if trendSlope < - 5 then [''declining mood trend'']
        else [])"

definition recommendedActions_of :: "string \<Rightarrow> string list" where
  "recommendedActions_of predictedMood =
     (if predictedMood = ''challenging''
      then [''Consider extra self-care tomorrow'', ''Schedule lighter activities if possible'']
      else if predictedMood = ''positive''
      then [''Good day to tackle challenging tasks'', ''Consider connecting with friends'']
      else [])"

text \<open>
  One iteration of the loop over the users, after the history query (newest first) has
  returned; \<open>today\<close> is the day number of the run. \<open>None\<close> is the \<^verbatim>\<open>continue\<close> of a
  history of fewer than seven documents.
\<close>

definition forecast_user :: "int \<Rightarrow> string \<Rightarrow> cognitiveMirror list \<Rightarrow> emotionForecast option"
  where
  "forecast_user today userId historicalData =
     (if length historicalData < 7 then None
      else
        let recentWeek = take 7 historicalData;
            avgRecentStress = average_of (map cm_stressIndex recentWeek) (length recentWeek);
            dayOfWeek = getDay today;
            sameDayHistory =
              filter (\<lambda>day. getDay (cm_date day) = (dayOfWeek + 1) mod 7) historicalData;
            trendSlope = (cm_moodScore (recentWeek ! 0) - cm_moodScore (recentWeek ! 6)) / 6;
            pc = trend_adjust trendSlope (seasonal_estimate sameDayHistory);
            tomorrowKey = today + 1
        in Some
          \<lparr>ef_userId = userId, ef_date = tomorrowKey, ef_predictedMood = fst pc,
           ef_confidence = Math_round (snd pc * 100) / 100,
           ef_predictionHorizonDays = 1,
           ef_influencingFactors = influencingFactors_of avgRecentStress trendSlope,
           ef_recommendedActions = recommendedActions_of (fst pc)\<rparr>)"

record forecast_db =
  fdb_users :: "error + string list"
  fdb_cognitiveMirror :: "string \<Rightarrow> error + cognitiveMirror list"
  fdb_set_emotionForecast :: "emotionForecast \<Rightarrow> error option"

record forecast_out =
  out_emotionForecast :: "emotionForecast list"
  out_forecast_log :: "log_entry list"

definition forecast_out_init :: forecast_out where
  "forecast_out_init =
     \<lparr>out_emotionForecast = [],
      out_forecast_log = [LogInfo ''Starting emotion forecast generation'']\<rparr>"

text \<open>The body of the loop over the users: the history query, then the awaited write.\<close>

definition forecast_iteration ::
  "int \<Rightarrow> forecast_db \<Rightarrow> string \<Rightarrow> forecast_out \<Rightarrow> forecast_out \<times> error option" where
  "forecast_iteration today db userId out =
     (case fdb_cognitiveMirror db userId of
        Inl e \<Rightarrow> (out, Some e)
      | Inr historicalData \<Rightarrow>
          (case forecast_user today userId historicalData of
             None \<Rightarrow> (out, None)
           | Some emotionForecast \<Rightarrow>
               (case fdb_set_emotionForecast db emotionForecast of
                  Some e \<Rightarrow> (out, Some e)
                | None \<Rightarrow>
                    (out\<lparr>out_emotionForecast := out_emotionForecast out @ [emotionForecast],
                          out_forecast_log := out_forecast_log out
                            @ [LogInfo (''Emotion forecast generated for user '' @ userId
                                 @ '': '' @ ef_predictedMood emotionForecast)]\<rparr>,
                     None))))"

fun forecast_loop ::
  "int \<Rightarrow> forecast_db \<Rightarrow> string list \<Rightarrow> forecast_out \<Rightarrow> forecast_out \<times> error option" where
  "forecast_loop today db [] out = (out, None)"
| "forecast_loop today db (userId # rest) out =
     (case forecast_iteration today db userId out of
        (out', Some e) \<Rightarrow> (out', Some e)
      | (out', None) \<Rightarrow> forecast_loop today db rest out')"

definition generateEmotionForecast :: "int \<Rightarrow> forecast_db \<Rightarrow> forecast_out" where
  "generateEmotionForecast today db =
     (case fdb_users db of
        Inl e \<Rightarrow> forecast_out_init\<lparr>out_forecast_log := out_forecast_log forecast_out_init
                   @ [LogError ''Error generating emotion forecast:'' e]\<rparr>
      | Inr users \<Rightarrow>
          (case forecast_loop today db users forecast_out_init of
             (out, None) \<Rightarrow> out
           | (out, Some e) \<Rightarrow>
               out\<lparr>out_forecast_log := out_forecast_log out
                 @ [LogError ''Error generating emotion forecast:'' e]\<rparr>))"

section \<open>Behavioral Recovery: \<^verbatim>\<open>detectBehavioralRecovery\<close>\<close>






section \<open>Double-precision arithmetic\<close>

text \<open>
  A value of the life-event detector is an IEEE 754 binary64 number: not-a-number, an
  infinity, or a finite rational (the sign of zero plays no part in the detector).
\<close>

datatype double = NaN | PosInfinity | NegInfinity | Finite rat

text \<open>The number of binary digits of a positive integer.\<close>

function bit_length :: "int \<Rightarrow> nat" where
  "bit_length n = (if n \<le> 0 then 0 else Suc (bit_length (n div 2)))"
  by pat_completeness auto
termination
  by (relation "measure nat") auto

declare bit_length.simps [simp del]

definition pow2 :: "int \<Rightarrow> rat" where
  "pow2 k = (if 0 \<le> k then 2 ^ nat k else 1 / 2 ^ nat (- k))"

text \<open>
  The binary exponent of a positive rational \<open>a\<close>: the \<open>e\<close> with \<open>2^e \<le> a < 2^(e+1)\<close>.
  The difference of the bit lengths of numerator and denominator is \<open>e\<close> or \<open>e + 1\<close>.
\<close>

definition binary_exponent :: "rat \<Rightarrow> int" where
  "binary_exponent a =
     (case quotient_of a of (p, q) \<Rightarrow>
        let k = int (bit_length p) - int (bit_length q)
        in if pow2 k \<le> a then k else k - 1)"

text \<open>The nearest integer, a tie going to the even one.\<close>

definition round_half_even :: "rat \<Rightarrow> int" where
  "round_half_even q =
     (let n = \<lfloor>q\<rfloor>; r = q - of_int n
      in if r < 1 / 2 then n
         else if 1 / 2 < r then n + 1
         else if even n then n else n + 1)"

text \<open>
  The rounding of an exact result to binary64, to nearest with ties to even: 53
  significant bits, the least exponent \<open>-1022\<close> (below it the spacing stays \<open>2^-1074\<close>), and
  an infinity when the rounded magnitude reaches \<open>2^1024\<close>, that is, when its binary
  exponent reaches 1024.
\<close>

definition round_double :: "rat \<Rightarrow> double" where
  "round_double x =
     (if x = 0 then Finite 0
      else
        let a = \<bar>x\<bar>;
            e = max (binary_exponent a) (- 1022);
            ulp = pow2 (e - 52);
            r = of_int (round_half_even (a / ulp)) * ulp
        in if 1024 \<le> binary_exponent r then (if 0 < x then PosInfinity else NegInfinity)
           else Finite (if 0 < x then r else - r))"

fun js_add :: "double \<Rightarrow> double \<Rightarrow> double" where
  "js_add NaN _ = NaN"
| "js_add _ NaN = NaN"
| "js_add PosInfinity NegInfinity = NaN"
| "js_add NegInfinity PosInfinity = NaN"
| "js_add PosInfinity _ = PosInfinity"
| "js_add _ PosInfinity = PosInfinity"
| "js_add NegInfinity _ = NegInfinity"
| "js_add _ NegInfinity = NegInfinity"
| "js_add (Finite a) (Finite b) = round_double (a + b)"

fun js_neg :: "double \<Rightarrow> double" where
  "js_neg NaN = NaN"
| "js_neg PosInfinity = NegInfinity"
| "js_neg NegInfinity = PosInfinity"
| "js_neg (Finite a) = Finite (- a)"

definition js_sub :: "double \<Rightarrow> double \<Rightarrow> double" where
  "js_sub a b = js_add a (js_neg b)"

text \<open>
  The division of a value by the length of an array (\<^verbatim>\<open>sum / firstHalf.length\<close>); a
  length is exact in binary64.
\<close>

fun js_div_length :: "double \<Rightarrow> nat \<Rightarrow> double" where
  "js_div_length NaN n = NaN"
| "js_div_length PosInfinity n = PosInfinity"
| "js_div_length NegInfinity n = NegInfinity"
| "js_div_length (Finite a) n =
     (if n = 0 then (if a = 0 then NaN else if 0 < a then PosInfinity else NegInfinity)
      else round_double (a / of_nat n))"

fun js_abs :: "double \<Rightarrow> double" where
  "js_abs NaN = NaN"
| "js_abs PosInfinity = PosInfinity"
| "js_abs NegInfinity = PosInfinity"
| "js_abs (Finite a) = Finite \<bar>a\<bar>"

text \<open>The comparison \<^verbatim>\<open>a < b\<close>: false as soon as one side is not a number.\<close>

fun js_less :: "double \<Rightarrow> double \<Rightarrow> bool" where
  "js_less NaN _ = False"
| "js_less _ NaN = False"
| "js_less (Finite a) (Finite b) = (a < b)"
| "js_less PosInfinity _ = False"
| "js_less _ NegInfinity = False"
| "js_less NegInfinity _ = True"
| "js_less _ PosInfinity = True"

definition js_greater :: "double \<Rightarrow> double \<Rightarrow> bool" where
  "js_greater a b = js_less b a"

text \<open>\<^verbatim>\<open>Math.max\<close> of two values.\<close>

definition Math_max :: "double \<Rightarrow> double \<Rightarrow> double" where
  "Math_max a b = (if a = NaN \<or> b = NaN then NaN else if js_less a b then b else a)"

text \<open>\<^verbatim>\<open>Math.round\<close> of a value.\<close>

fun js_round :: "double \<Rightarrow> double" where
  "js_round (Finite a) = Finite (Math_round a)"
| "js_round a = a"

section \<open>Life Events: \<^verbatim>\<open>detectLifeEvents\<close>\<close>

record lifeEvent =
  le_userId :: string
  le_eventType :: string
  le_detectedOn :: int
  le_metricsInvolved :: "string list"
  le_significance :: double
  le_moodShift :: double
  le_stressShift :: double

text \<open>The classification chain inside the detection branch.\<close>

definition eventType_of :: "double \<Rightarrow> double \<Rightarrow> string" where
  "eventType_of moodShift stressShift =
     (if js_greater moodShift (Finite 25) \<and> js_less stressShift (Finite (- 15))
      then ''positive_life_change''
      else if js_less moodShift (Finite (- 25)) \<and> js_greater stressShift (Finite 15)
      then ''challenging_life_event''
      else if js_greater (js_abs stressShift) (Finite 25) then ''major_stress_shift''
      else if js_greater (js_abs moodShift) (Finite 30) then ''significant_mood_change''
      else ''unknown_transition'')"

text \<open>
  \<^verbatim>\<open>detectedEvents\<close> as pairs of event type and significance; the rounded shifts are
  added when the record is written.
\<close>

definition detectedEvents_of :: "double \<Rightarrow> double \<Rightarrow> (string \<times> double) list" where
  "detectedEvents_of moodShift stressShift =
     (if js_greater (js_abs moodShift) (Finite 25) \<or> js_greater (js_abs stressShift) (Finite 20)
      then [(eventType_of moodShift stressShift,
             Math_max (js_abs moodShift) (js_abs stressShift))]
      else [])"

text \<open>
  \<^verbatim>\<open>docs.reduce((sum, doc) => sum + doc.data().field, 0) / docs.length\<close>: a number
  held by a document is a double, the sum is rounded after every addition, the quotient
  once.
\<close>

definition average_double :: "(cognitiveMirror \<Rightarrow> number) \<Rightarrow> cognitiveMirror list \<Rightarrow> double"
  where
  "average_double field docs =
     js_div_length
       (foldl (\<lambda>sum doc. js_add sum (round_double (field doc))) (Finite 0) docs)
       (length docs)"

definition moodShift_of :: "cognitiveMirror list \<Rightarrow> double" where
  "moodShift_of docs =
     (let firstHalf = take (length docs div 2) docs;
          secondHalf = drop (length docs div 2) docs;
          avgFirstMood = average_double cm_moodScore firstHalf;
          avgSecondMood = average_double cm_moodScore secondHalf
      in js_sub avgSecondMood avgFirstMood)"

definition stressShift_of :: "cognitiveMirror list \<Rightarrow> double" where
  "stressShift_of docs =
     (let firstHalf = take (length docs div 2) docs;
          secondHalf = drop (length docs div 2) docs;
          avgFirstStress = average_double cm_stressIndex firstHalf;
          avgSecondStress = average_double cm_stressIndex secondHalf
      in js_sub avgSecondStress avgFirstStress)"

text \<open>
  One iteration of the weekly loop over the users, after the query over the trailing four
  weeks (oldest first) has returned: the life-event records handed to the store for that
  user.
\<close>

definition lifeEvents_user :: "int \<Rightarrow> string \<Rightarrow> cognitiveMirror list \<Rightarrow> lifeEvent list" where
  "lifeEvents_user today userId docs =
     (if length docs < 14 then []
      else
        let moodShift = moodShift_of docs;
            stressShift = stressShift_of docs
        in map (\<lambda>(eventType, significance).
                  \<lparr>le_userId = userId, le_eventType = eventType, le_detectedOn = today,
                   le_metricsInvolved = [''mood'', ''stress''],
                   le_significance = significance,
                   le_moodShift = js_round moodShift,
                   le_stressShift = js_round stressShift\<rparr>)
             (detectedEvents_of moodShift stressShift))"

section \<open>Notions used in the statements\<close>

text \<open>
  The stress inputs are the three fields the builder reads, each from the first document
  of its snapshot. They are nonnegative when every one that is read is.
\<close>

definition stress_inputs_nonneg :: "deviceSignal list \<Rightarrow> shadowCognition list \<Rightarrow> bool" where
  "stress_inputs_nonneg deviceSignals shadowCognitions =
     ((case deviceSignals of
         [] \<Rightarrow> True
       | deviceData # _ \<Rightarrow>
           0 \<le> or_zero (ds_notificationCount deviceData) \<and>
           0 \<le> or_zero (ds_screenTimeMinutes deviceData)) \<and>
      (case shadowCognitions of
         [] \<Rightarrow> True
       | shadowData # _ \<Rightarrow> 0 \<le> or_zero (sc_frictionTaps shadowData)))"

text \<open>What the device snapshot and the shadow-cognition snapshot add to the baseline.\<close>

definition device_term :: "deviceSignal list \<Rightarrow> number" where
  "device_term deviceSignals =
     (case deviceSignals of
        [] \<Rightarrow> 0
      | deviceData # _ \<Rightarrow> notificationStress deviceData + screenTimeStress deviceData)"

definition friction_term :: "shadowCognition list \<Rightarrow> number" where
  "friction_term shadowCognitions =
     (case shadowCognitions of [] \<Rightarrow> 0 | shadowData # _ \<Rightarrow> frictionStress shadowData)"

section \<open>Concrete inputs\<close>

definition mk_mirror :: "int \<Rightarrow> number \<Rightarrow> number \<Rightarrow> cognitiveMirror" where
  "mk_mirror d m s =
     \<lparr>cm_userId = ''u'', cm_date = d, cm_moodScore = m, cm_stressIndex = s,
      cm_highlightInsights = [], cm_energyLevel = 100 - s, cm_socialConnection = 0,
      cm_purposeAlignment = Math_round ((m + (100 - s)) / 2)\<rparr>"

text \<open>Two users with telemetry: ten and fifty minutes of motion. Every write succeeds.\<close>

definition demo_capture_db :: capture_db where
  "demo_capture_db =
     \<lparr>db_users = Inr [''u1'', ''u2''],
      db_telemetryEvents = (\<lambda>userId.
        if userId = ''u1''
        then Inr [\<lparr>te_eventType = ''motion_event'', te_eventDuration = Some 600\<rparr>]
        else Inr [\<lparr>te_eventType = ''motion_event'', te_eventDuration = Some 3000\<rparr>,
                  \<lparr>te_eventType = ''screen_on'', te_eventDuration = None\<rparr>]),
      db_set_rhythmMap = (\<lambda>rm. None),
      db_set_healthEcho = (\<lambda>he. None)\<rparr>"

text \<open>Three users; the store throws on a query of the second.\<close>

definition failing_capture_db :: capture_db where
  "failing_capture_db =
     \<lparr>db_users = Inr [''u0'', ''u1'', ''u2''],
      db_telemetryEvents = (\<lambda>userId.
        if userId = ''u1'' then Inl (Exception ''store unavailable'')
        else Inr [\<lparr>te_eventType = ''motion_event'', te_eventDuration = Some 3000\<rparr>]),
      db_set_rhythmMap = (\<lambda>rm. None),
      db_set_healthEcho = (\<lambda>he. None)\<rparr>"

definition failing_mirror_db :: mirror_db where
  "failing_mirror_db =
     \<lparr>mdb_users = Inr [''u0'', ''u1'', ''u2''],
      mdb_voiceEvents = (\<lambda>userId. Inr []),
      mdb_deviceSignals = (\<lambda>userId.
        if userId = ''u1'' then Inl (Exception ''store unavailable'') else Inr []),
      mdb_shadowCognition = (\<lambda>userId. Inr []),
      mdb_rhythmMap = (\<lambda>userId. Inr []),
      mdb_set_cognitiveMirror = (\<lambda>cm. None)\<rparr>"

text \<open>
  Three users, every query returning; the store rejects the HealthEcho write, and the
  CognitiveMirror write, of the second.
\<close>

definition echo_write_fails_db :: capture_db where
  "echo_write_fails_db =
     \<lparr>db_users = Inr [''u0'', ''u1'', ''u2''],
      db_telemetryEvents = (\<lambda>userId.
        Inr [\<lparr>te_eventType = ''motion_event'', te_eventDuration = Some 3000\<rparr>]),
      db_set_rhythmMap = (\<lambda>rm. None),
      db_set_healthEcho = (\<lambda>he.
        if he_userId he = ''u1'' then Some (Exception ''write rejected'') else None)\<rparr>"

definition mirror_write_fails_db :: mirror_db where
  "mirror_write_fails_db =
     \<lparr>mdb_users = Inr [''u0'', ''u1'', ''u2''],
      mdb_voiceEvents = (\<lambda>userId. Inr []),
      mdb_deviceSignals = (\<lambda>userId. Inr []),
      mdb_shadowCognition = (\<lambda>userId. Inr []),
      mdb_rhythmMap = (\<lambda>userId. Inr []),
      mdb_set_cognitiveMirror = (\<lambda>cm.
        if cm_userId cm = ''u1'' then Some (Exception ''write rejected'') else None)\<rparr>"

text \<open>Device and shadow-cognition snapshots: a negative count, a heavy day, a quarter hour.\<close>

definition negative_device :: "deviceSignal list" where
  "negative_device = [\<lparr>ds_notificationCount = Some (- 20), ds_screenTimeMinutes = Some 0\<rparr>]"

definition heavy_device :: "deviceSignal list" where
  "heavy_device = [\<lparr>ds_notificationCount = Some 50, ds_screenTimeMinutes = Some 1000\<rparr>]"

definition heavy_shadow :: "shadowCognition list" where
  "heavy_shadow = [\<lparr>sc_frictionTaps = Some 20\<rparr>]"

definition fractional_device :: "deviceSignal list" where
  "fractional_device = [\<lparr>ds_notificationCount = Some 0, ds_screenTimeMinutes = Some 15\<rparr>]"




text \<open>
  Histories of the forecast engine, newest first, for a run on day 0 (a Thursday): nine
  records with three Fridays of high mood and a rising last week, and a flat week.
\<close>

definition rising_history :: "cognitiveMirror list" where
  "rising_history =
     [mk_mirror 0 100 30, mk_mirror (- 1) 90 30, mk_mirror (- 2) 90 30, mk_mirror (- 3) 80 30,
      mk_mirror (- 4) 80 30, mk_mirror (- 5) 70 30, mk_mirror (- 6) 60 30,
      mk_mirror (- 13) 100 30, mk_mirror (- 20) 100 30]"

definition flat_history :: "cognitiveMirror list" where
  "flat_history =
     [mk_mirror 0 50 30, mk_mirror (- 1) 50 30, mk_mirror (- 2) 50 30, mk_mirror (- 3) 50 30,
      mk_mirror (- 4) 50 30, mk_mirror (- 5) 50 30, mk_mirror (- 6) 50 30]"

text \<open>Two users: one with six days of history, one with seven. Nothing throws.\<close>

definition six_days_db :: forecast_db where
  "six_days_db =
     \<lparr>fdb_users = Inr [''a'', ''b''],
      fdb_cognitiveMirror = (\<lambda>userId.
        if userId = ''a'' then Inr (take 6 flat_history) else Inr flat_history),
      fdb_set_emotionForecast = (\<lambda>f. None)\<rparr>"

text \<open>
  Two users: the history query of the first throws, the second has seven days of history.
\<close>

definition throwing_history_db :: forecast_db where
  "throwing_history_db =
     \<lparr>fdb_users = Inr [''a'', ''b''],
      fdb_cognitiveMirror = (\<lambda>userId.
        if userId = ''a'' then Inl (Exception ''store unavailable'') else Inr flat_history),
      fdb_set_emotionForecast = (\<lambda>f. None)\<rparr>"

text \<open>
  Four weeks of the life-event detector: two records with moods 0 and 100; fourteen
  records whose second week is 26 points of mood and 16 points of stress above the first;
  and fourteen records with moods 8, 7, 7, 7, 7, 7, 7 and then 33, 32, 32, 32, 32, 32, 32,
  whose exact mood shift is 25.
\<close>

definition two_docs :: "cognitiveMirror list" where
  "two_docs = [mk_mirror 1 0 30, mk_mirror 2 100 30]"

definition shift_docs :: "cognitiveMirror list" where
  "shift_docs = replicate 7 (mk_mirror 1 40 30) @ replicate 7 (mk_mirror 8 66 46)"

definition boundary_docs :: "cognitiveMirror list" where
  "boundary_docs =
     mk_mirror 1 8 30 # replicate 6 (mk_mirror 2 7 30)
     @ mk_mirror 8 33 30 # replicate 6 (mk_mirror 9 32 30)"

section \<open>Rounding\<close>

lemma Math_round_mono: "x \<le> y \<Longrightarrow> Math_round x \<le> Math_round y"
  by (simp add: Math_round_def floor_mono)

lemma Math_round_int: "Math_round (of_int k) = of_int k"
  by (simp add: Math_round_def) linarith

lemma Math_round_30: "Math_round 30 = 30"
  using Math_round_int [of 30] by simp

lemma Math_round_100: "Math_round 100 = 100"
  using Math_round_int [of 100] by simp

section \<open>The Daily Aggregator\<close>

lemma foldl_telemetry_sleep:
  "sleepStart (foldl telemetry_step m docs) = sleepStart m \<and>
   sleepEnd (foldl telemetry_step m docs) = sleepEnd m"
  by (induction docs arbitrary: m) (simp_all add: telemetry_step_def)

lemma sleepHours_default: "sleepHours_of (foldl telemetry_step metrics_init docs) = 8"
  by (simp add: sleepHours_of_def foldl_telemetry_sleep metrics_init_def truthy_def)

lemma aggregate_user_rhythmState:
  assumes "aggregate_user dateKey userId docs = Some (rm, he)"
  shows "rm_rhythmState rm =
     rhythmState_of (rm_sleepHours rm) (rm_movementScore rm)
       (motionEvents (foldl telemetry_step metrics_init docs))"
  using assms by (auto simp: aggregate_user_def Let_def split: if_splits)

text \<open>
  Claim C2. Whenever \<open>sleepHours < 6\<close> or \<open>movementScore < 20\<close> the classification is
  Off-Rhythm, whatever the other inputs: that test comes first, the Overstimulated test
  (\<open>movementScore > 80\<close> and more than 100 motion events) second, and Stable is the default.
  The rhythm state of a written RhythmMap is this classification of its own fields.
\<close>

theorem rhythmState_off_rhythm_first:
  "(sleepHours < 6 \<or> movementScore < 20 \<longrightarrow>
      rhythmState_of sleepHours movementScore motionEventCount = ''Off-Rhythm'') \<and>
   (\<not> (sleepHours < 6 \<or> movementScore < 20) \<longrightarrow>
      rhythmState_of sleepHours movementScore motionEventCount =
        (if movementScore > 80 \<and> motionEventCount > 100 then ''Overstimulated''
         else ''Stable'')) \<and>
   (aggregate_user dateKey userId docs = Some (rm, he) \<longrightarrow>
      rm_rhythmState rm =
        rhythmState_of (rm_sleepHours rm) (rm_movementScore rm)
          (motionEvents (foldl telemetry_step metrics_init docs)))"
  using aggregate_user_rhythmState [of dateKey userId docs rm he]
  by (simp add: rhythmState_of_def)

theorem rhythmState_off_rhythm_first_witness:
  "(5 :: number) < 6 \<and> rhythmState_of 5 90 200 = ''Off-Rhythm'' \<and>
   (10 :: number) < 20 \<and> rhythmState_of 8 10 200 = ''Off-Rhythm'' \<and>
   rhythmState_of 8 90 200 = ''Overstimulated'' \<and>
   rhythmState_of 8 90 100 = ''Stable''"
  using rhythmState_off_rhythm_first [of 5 90 200]
    rhythmState_off_rhythm_first [of 8 10 200]
    rhythmState_off_rhythm_first [of 8 90 200]
    rhythmState_off_rhythm_first [of 8 90 100]
  by simp

lemma aggregate_user_shape:
  assumes "aggregate_user dateKey userId docs = Some (rm, he)"
  shows "rm_sleepHours rm = 8 \<and>
         (rm_rhythmState rm = ''Off-Rhythm'' \<longleftrightarrow> rm_movementScore rm < 20) \<and>
         rm_restfulnessScore rm = 100"
  using assms
  by (auto simp: aggregate_user_def Let_def sleepHours_default rhythmState_of_def
      split: if_splits)

lemma aggregate_iteration_written:
  "aggregate_iteration dateKey db userId out = (out', r) \<Longrightarrow>
   rm \<in> set (out_rhythmMap out') \<Longrightarrow>
   rm \<in> set (out_rhythmMap out) \<or>
   (\<exists>docs he. aggregate_user dateKey userId docs = Some (rm, he))"
  by (auto simp: aggregate_iteration_def split: sum.splits option.splits prod.splits)

lemma aggregate_loop_written:
  "aggregate_loop dateKey db users out = (out', r) \<Longrightarrow>
   rm \<in> set (out_rhythmMap out') \<Longrightarrow>
   rm \<in> set (out_rhythmMap out) \<or>
   (\<exists>userId docs he. aggregate_user dateKey userId docs = Some (rm, he))"
proof (induction users arbitrary: out)
  case Nil
  then show ?case by simp
next
  case (Cons userId rest)
  obtain out1 r1 where it: "aggregate_iteration dateKey db userId out = (out1, r1)"
    by (cases "aggregate_iteration dateKey db userId out")
  show ?case
  proof (cases r1)
    case None
    with it Cons.prems(1) have "aggregate_loop dateKey db rest out1 = (out', r)" by simp
    from Cons.IH [OF this Cons.prems(2)] aggregate_iteration_written [OF it]
    show ?thesis by blast
  next
    case (Some e)
    with it Cons.prems(1) have "out' = out1" by simp
    with aggregate_iteration_written [OF it] Cons.prems(2) show ?thesis by blast
  qed
qed

lemma aggregate_job_written:
  assumes "rm \<in> set (out_rhythmMap (aggregateDailyHealthMetrics dateKey db))"
  shows "\<exists>userId docs he. aggregate_user dateKey userId docs = Some (rm, he)"
proof (cases "db_users db")
  case (Inl e)
  with assms show ?thesis
    by (simp add: aggregateDailyHealthMetrics_def capture_out_init_def)
next
  case (Inr users)
  obtain out r
    where l: "aggregate_loop dateKey db users capture_out_init = (out, r)"
    by (cases "aggregate_loop dateKey db users capture_out_init")
  with Inr assms have "rm \<in> set (out_rhythmMap out)"
    by (cases r) (simp_all add: aggregateDailyHealthMetrics_def)
  from aggregate_loop_written [OF l this] show ?thesis
    by (simp add: capture_out_init_def)
qed

text \<open>
  Claim C9. Every RhythmMap the daily health aggregator writes has \<open>sleepHours = 8\<close>: the
  sleep markers start as null and the loop over the events never assigns them, so the
  default is taken. Hence its rhythm state is Off-Rhythm exactly when \<open>movementScore < 20\<close>,
  and its restfulness score is 100.
\<close>

theorem rhythmMap_sleepHours_always_8:
  "\<forall>rm \<in> set (out_rhythmMap (aggregateDailyHealthMetrics dateKey db)).
     rm_sleepHours rm = 8 \<and>
     (rm_rhythmState rm = ''Off-Rhythm'' \<longleftrightarrow> rm_movementScore rm < 20) \<and>
     rm_restfulnessScore rm = 100"
  using aggregate_job_written aggregate_user_shape by blast

theorem rhythmMap_sleepHours_always_8_witness:
  "map rm_userId (out_rhythmMap (aggregateDailyHealthMetrics 100 demo_capture_db))
     = [''u1'', ''u2''] \<and>
   rm_sleepHours (hd (out_rhythmMap (aggregateDailyHealthMetrics 100 demo_capture_db))) = 8 \<and>
   rm_restfulnessScore (hd (out_rhythmMap (aggregateDailyHealthMetrics 100 demo_capture_db)))
     = 100 \<and>
   rm_movementScore (hd (out_rhythmMap (aggregateDailyHealthMetrics 100 demo_capture_db)))
     = 10 \<and>
   rm_rhythmState (hd (out_rhythmMap (aggregateDailyHealthMetrics 100 demo_capture_db)))
     = ''Off-Rhythm''"
proof -
  let ?written = "out_rhythmMap (aggregateDailyHealthMetrics 100 demo_capture_db)"
  have users: "map rm_userId ?written = [''u1'', ''u2'']"
    by (simp add: aggregateDailyHealthMetrics_def demo_capture_db_def capture_out_init_def
        aggregate_iteration_def aggregate_user_def Let_def)
  then have "?written \<noteq> []" by auto
  then have "hd ?written \<in> set ?written" by simp
  with rhythmMap_sleepHours_always_8 [of 100 demo_capture_db]
  have shape: "rm_sleepHours (hd ?written) = 8 \<and>
     (rm_rhythmState (hd ?written) = ''Off-Rhythm'' \<longleftrightarrow> rm_movementScore (hd ?written) < 20) \<and>
     rm_restfulnessScore (hd ?written) = 100"
    by blast
  have "rm_movementScore (hd ?written) = 10"
    by (simp add: aggregateDailyHealthMetrics_def demo_capture_db_def capture_out_init_def
        aggregate_iteration_def aggregate_user_def Let_def movementScore_of_def metrics_init_def telemetry_step_def
        or_zero_def)
  with users shape show ?thesis by simp
qed

section \<open>The Cognitive Mirror Builder\<close>

lemma stressIndex_of_sum:
  "stressIndex_of ds sc = min 100 (30 + device_term ds + friction_term sc)"
  by (simp add: stressIndex_of_def device_term_def friction_term_def Let_def
      split: list.splits)

lemma terms_capped:
  "notificationStress d \<le> 40" "screenTimeStress d \<le> 30" "frictionStress s \<le> 30"
  by (simp_all add: notificationStress_def screenTimeStress_def frictionStress_def)

lemma terms_nonneg:
  "stress_inputs_nonneg ds sc \<Longrightarrow> 0 \<le> device_term ds \<and> 0 \<le> friction_term sc"
  by (auto simp: stress_inputs_nonneg_def device_term_def friction_term_def
      notificationStress_def screenTimeStress_def frictionStress_def split: list.splits)

lemma stressIndex_upper: "stressIndex_of ds sc \<le> 100"
  by (simp add: stressIndex_of_sum)

lemma stressIndex_lower:
  "stress_inputs_nonneg ds sc \<Longrightarrow> 30 \<le> stressIndex_of ds sc"
  using terms_nonneg [of ds sc] by (simp add: stressIndex_of_sum)

text \<open>
  Claim C1, as the code has it. Each of the three additive stress terms is capped on its own
  before the sum (\<open>notificationCount * 2\<close> at 40, \<open>screenTimeMinutes / 10\<close> at 30,
  \<open>frictionTaps * 3\<close> at 30), and the total with the baseline 30 is capped at 100 for every
  input. There is no lower clamp: the total is at least 0 when the inputs read are
  nonnegative.
\<close>

theorem stress_terms_capped_total_at_most_100:
  "notificationStress deviceData \<le> 40 \<and> screenTimeStress deviceData \<le> 30 \<and>
   frictionStress shadowData \<le> 30 \<and>
   stressIndex_of deviceSignals shadowCognitions =
     min 100 (30 + device_term deviceSignals + friction_term shadowCognitions) \<and>
   stressIndex_of deviceSignals shadowCognitions \<le> 100 \<and>
   (stress_inputs_nonneg deviceSignals shadowCognitions \<longrightarrow>
      0 \<le> stressIndex_of deviceSignals shadowCognitions)"
  using stressIndex_lower [of deviceSignals shadowCognitions]
  by (auto simp: terms_capped stressIndex_upper stressIndex_of_sum [symmetric])

theorem stress_terms_capped_total_at_most_100_witness:
  "stress_inputs_nonneg heavy_device heavy_shadow \<and>
   0 \<le> stressIndex_of heavy_device heavy_shadow \<and>
   stressIndex_of heavy_device heavy_shadow \<le> 100 \<and>
   stressIndex_of heavy_device heavy_shadow
     = min 100 (30 + device_term heavy_device + friction_term heavy_shadow)"
proof -
  have h: "stress_inputs_nonneg heavy_device heavy_shadow"
    by (simp add: stress_inputs_nonneg_def heavy_device_def heavy_shadow_def or_zero_def)
  with stress_terms_capped_total_at_most_100 [of _ _ heavy_device heavy_shadow]
  show ?thesis by blast
qed

text \<open>
  With a notification count of \<open>-20\<close> the total is \<open>-10\<close>, outside \<open>[0, 100]\<close>, and that is
  the stress index stored.
\<close>

theorem stress_clamp_counterexample:
  "stressIndex_of negative_device [] = - 10 \<and>
   \<not> (0 \<le> stressIndex_of negative_device [] \<and> stressIndex_of negative_device [] \<le> 100) \<and>
   cm_stressIndex (mirror_user 0 ''u'' [] negative_device [] []) = - 10"
  using Math_round_int [of "- 10"]
  by (simp add: stressIndex_of_def negative_device_def notificationStress_def
      screenTimeStress_def or_zero_def mirror_user_def Let_def)

text \<open>
  Claim C10. When the stress inputs are nonnegative the stress index lies in \<open>[30, 100]\<close>,
  before and after rounding (the baseline is 30 and nothing is subtracted); so the insight
  of the band \<open>stressIndex < 30\<close> is never among the highlight insights.
\<close>

theorem stress_at_least_baseline:
  assumes "stress_inputs_nonneg deviceSignals shadowCognitions"
  shows "30 \<le> stressIndex_of deviceSignals shadowCognitions \<and>
         stressIndex_of deviceSignals shadowCognitions \<le> 100 \<and>
         30 \<le> cm_stressIndex (mirror_user dateKey userId voiceEvents deviceSignals
                 shadowCognitions rhythmMaps) \<and>
         cm_stressIndex (mirror_user dateKey userId voiceEvents deviceSignals
                 shadowCognitions rhythmMaps) \<le> 100 \<and>
         ''You maintained good digital balance today''
           \<notin> set (cm_highlightInsights (mirror_user dateKey userId voiceEvents deviceSignals
                 shadowCognitions rhythmMaps))"
proof -
  let ?s = "stressIndex_of deviceSignals shadowCognitions"
  have lo: "30 \<le> ?s" using assms by (rule stressIndex_lower)
  have hi: "?s \<le> 100" by (rule stressIndex_upper)
  have rlo: "30 \<le> Math_round ?s" using Math_round_mono [OF lo] by (simp add: Math_round_30)
  have rhi: "Math_round ?s \<le> 100" using Math_round_mono [OF hi] by (simp add: Math_round_100)
  have "''You maintained good digital balance today'' \<notin> set (stress_insights ?s)"
    using lo by (simp add: stress_insights_def)
  moreover have "''You maintained good digital balance today'' \<notin> set (mood_insights m)" for m
    by (simp add: mood_insights_def)
  moreover have "''You maintained good digital balance today'' \<notin> set (rhythm_insights r)" for r
    by (simp add: rhythm_insights_def split: list.splits)
  ultimately have "''You maintained good digital balance today''
      \<notin> set (highlightInsights_of m ?s r)" for m r
    by (simp add: highlightInsights_of_def)
  then show ?thesis using lo hi rlo rhi by (simp add: mirror_user_def Let_def)
qed

theorem stress_at_least_baseline_witness:
  "stress_inputs_nonneg fractional_device [] \<and>
   30 \<le> stressIndex_of fractional_device [] \<and>
   cm_stressIndex (mirror_user 0 ''u'' [] fractional_device [] []) \<le> 100 \<and>
   ''You maintained good digital balance today''
     \<notin> set (cm_highlightInsights (mirror_user 0 ''u'' [] fractional_device [] []))"
proof -
  have h: "stress_inputs_nonneg fractional_device []"
    by (simp add: stress_inputs_nonneg_def fractional_device_def or_zero_def)
  from stress_at_least_baseline [OF h, of 0 "''u''" "[]" "[]"] h
  show ?thesis by blast
qed

text \<open>
  Claim C7. The claim asks that the stored energy level be 100 minus the stored stress
  index. The builder stores the rounded stress index but computes the energy level from
  the unrounded one: with 15 minutes of screen time and nothing else, the stress index is
  31.5 before rounding, the record holds \<open>stressIndex = 32\<close> and \<open>energyLevel = 68.5\<close>,
  not 68.
\<close>

theorem energyLevel_not_inverse_of_stored_stress:
  "cm_stressIndex (mirror_user 0 ''u'' [] fractional_device [] []) = 32 \<and>
   cm_energyLevel (mirror_user 0 ''u'' [] fractional_device [] []) = 137 / 2 \<and>
   cm_energyLevel (mirror_user 0 ''u'' [] fractional_device [] [])
     \<noteq> 100 - cm_stressIndex (mirror_user 0 ''u'' [] fractional_device [] [])"
  by (simp add: mirror_user_def fractional_device_def stressIndex_of_def
      notificationStress_def screenTimeStress_def or_zero_def Math_round_def Let_def)

text \<open>
  The purpose alignment is the rounded mean of the unrounded mood score and the stored
  energy level.
\<close>

lemma purposeAlignment_formula:
  "cm_purposeAlignment (mirror_user d u v ds sc r)
     = Math_round ((moodScore_of v + cm_energyLevel (mirror_user d u v ds sc r)) / 2)"
  by (simp add: mirror_user_def Let_def)

section \<open>An exception in a scheduled job\<close>

lemma aggregate_loop_append:
  "aggregate_loop d db (us @ vs) out =
     (case aggregate_loop d db us out of
        (out', None) \<Rightarrow> aggregate_loop d db vs out'
      | (out', Some e) \<Rightarrow> (out', Some e))"
  by (induction us arbitrary: out) (simp_all split: option.splits prod.splits)

lemma aggregate_iteration_users:
  "aggregate_iteration d (db\<lparr>db_users := x\<rparr>) u out = aggregate_iteration d db u out"
  by (simp add: aggregate_iteration_def split: sum.splits option.splits prod.splits)

lemma aggregate_loop_users:
  "aggregate_loop d (db\<lparr>db_users := x\<rparr>) us out = aggregate_loop d db us out"
  by (induction us arbitrary: out) (simp_all add: aggregate_iteration_users)

text \<open>What an iteration that throws leaves behind, by the operation that threw.\<close>

lemma aggregate_iteration_raises:
  assumes "aggregate_iteration d db u out = (out', Some e)"
  shows "out_healthEcho out' = out_healthEcho out \<and> out_log out' = out_log out \<and>
     (db_telemetryEvents db u = Inl e \<and> out' = out \<or>
      (\<exists>docs rm he. db_telemetryEvents db u = Inr docs \<and>
         aggregate_user d u docs = Some (rm, he) \<and>
         db_set_rhythmMap db rm = Some e \<and> out' = out) \<or>
      (\<exists>docs rm he. db_telemetryEvents db u = Inr docs \<and>
         aggregate_user d u docs = Some (rm, he) \<and>
         db_set_rhythmMap db rm = None \<and> db_set_healthEcho db he = Some e \<and>
         out' = out\<lparr>out_rhythmMap := out_rhythmMap out @ [rm]\<rparr>))"
  using assms
  by (auto simp: aggregate_iteration_def split: sum.splits option.splits prod.splits)

lemma aggregate_job_stops:
  assumes "db_users db = Inr (us @ u # vs)"
    and "aggregate_loop d db us capture_out_init = (out_us, None)"
    and "aggregate_iteration d db u out_us = (out_u, Some e)"
  shows "aggregateDailyHealthMetrics d (db\<lparr>db_users := Inr us\<rparr>) = out_us"
    and "aggregateDailyHealthMetrics d db =
      out_u\<lparr>out_log := out_log out_u
        @ [LogError ''Error aggregating daily health metrics:'' e]\<rparr>"
proof -
  show "aggregateDailyHealthMetrics d (db\<lparr>db_users := Inr us\<rparr>) = out_us"
    using assms(2) by (simp add: aggregateDailyHealthMetrics_def aggregate_loop_users)
  have "aggregate_loop d db (us @ u # vs) capture_out_init = (out_u, Some e)"
    using assms(2,3) by (simp add: aggregate_loop_append)
  then show "aggregateDailyHealthMetrics d db =
      out_u\<lparr>out_log := out_log out_u
        @ [LogError ''Error aggregating daily health metrics:'' e]\<rparr>"
    using assms(1) by (simp add: aggregateDailyHealthMetrics_def)
qed

lemma mirror_loop_append:
  "mirror_loop d db (us @ vs) out =
     (case mirror_loop d db us out of
        (out', None) \<Rightarrow> mirror_loop d db vs out'
      | (out', Some e) \<Rightarrow> (out', Some e))"
  by (induction us arbitrary: out) (simp_all split: option.splits prod.splits)

lemma fetch_passive_users:
  "fetch_passive (db\<lparr>mdb_users := x\<rparr>) userId = fetch_passive db userId"
  by (simp add: fetch_passive_def split: sum.splits)

lemma mirror_iteration_users:
  "mirror_iteration d (db\<lparr>mdb_users := x\<rparr>) u out = mirror_iteration d db u out"
  by (simp add: mirror_iteration_def fetch_passive_users Let_def
      split: sum.splits option.splits prod.splits)

lemma mirror_loop_users: "mirror_loop d (db\<lparr>mdb_users := x\<rparr>) us out = mirror_loop d db us out"
  by (induction us arbitrary: out) (simp_all add: mirror_iteration_users)

lemma mirror_iteration_raises:
  "mirror_iteration d db u out = (out', Some e) \<Longrightarrow> out' = out"
  by (auto simp: mirror_iteration_def Let_def split: sum.splits option.splits prod.splits)

lemma mirror_job_stops:
  assumes "mdb_users db = Inr (us @ u # vs)"
    and "mirror_loop d db us mirror_out_init = (out_us, None)"
    and "mirror_iteration d db u out_us = (out_u, Some e)"
  shows "generateCognitiveMirror d (db\<lparr>mdb_users := Inr us\<rparr>) = out_us"
    and "out_u = out_us"
    and "generateCognitiveMirror d db =
      out_us\<lparr>out_mirror_log := out_mirror_log out_us
        @ [LogError ''Error generating cognitive mirror:'' e]\<rparr>"
proof -
  show "generateCognitiveMirror d (db\<lparr>mdb_users := Inr us\<rparr>) = out_us"
    using assms(2) by (simp add: generateCognitiveMirror_def mirror_loop_users)
  show same: "out_u = out_us" using assms(3) by (rule mirror_iteration_raises)
  have "mirror_loop d db (us @ u # vs) mirror_out_init = (out_us, Some e)"
    using assms(2,3) same by (simp add: mirror_loop_append)
  then show "generateCognitiveMirror d db =
      out_us\<lparr>out_mirror_log := out_mirror_log out_us
        @ [LogError ''Error generating cognitive mirror:'' e]\<rparr>"
    using assms(1) by (simp add: generateCognitiveMirror_def)
qed

text \<open>
  Claim C8, as the code has it. In the Daily Aggregator and in the Cognitive Mirror Builder
  the one \<^verbatim>\<open>try\<close> block encloses the whole loop over the users. Let the users before
  \<open>u\<close> be processed without an exception, leaving \<open>out_us\<close>, and let an operation of the
  store throw \<open>e\<close> while \<open>u\<close> is processed. Then the exception is caught and logged and does
  not leave the job; what was written before it stays: the records of the earlier users
  and, in the aggregator, the RhythmMap of \<open>u\<close> when it is the HealthEcho write that comes
  after it that throws; and the loop ends there: nothing more is written for \<open>u\<close>, and
  nothing at all for the users after \<open>u\<close>.
\<close>

theorem failing_user_ends_the_run:
  "(db_users db = Inr (us @ u # vs) \<and>
    aggregate_loop d db us capture_out_init = (out_us, None) \<and>
    aggregate_iteration d db u out_us = (out_u, Some e) \<longrightarrow>
      aggregateDailyHealthMetrics d (db\<lparr>db_users := Inr us\<rparr>) = out_us \<and>
      aggregateDailyHealthMetrics d db =
        out_u\<lparr>out_log := out_log out_u
          @ [LogError ''Error aggregating daily health metrics:'' e]\<rparr> \<and>
      out_healthEcho out_u = out_healthEcho out_us \<and>
      out_log out_u = out_log out_us \<and>
      (db_telemetryEvents db u = Inl e \<and> out_u = out_us \<or>
       (\<exists>docs rm he. db_telemetryEvents db u = Inr docs \<and>
          aggregate_user d u docs = Some (rm, he) \<and>
          db_set_rhythmMap db rm = Some e \<and> out_u = out_us) \<or>
       (\<exists>docs rm he. db_telemetryEvents db u = Inr docs \<and>
          aggregate_user d u docs = Some (rm, he) \<and>
          db_set_rhythmMap db rm = None \<and> db_set_healthEcho db he = Some e \<and>
          out_u = out_us\<lparr>out_rhythmMap := out_rhythmMap out_us @ [rm]\<rparr>))) \<and>
   (mdb_users mdb = Inr (us @ u # vs) \<and>
    mirror_loop d mdb us mirror_out_init = (mout_us, None) \<and>
    mirror_iteration d mdb u mout_us = (mout_u, Some e) \<longrightarrow>
      generateCognitiveMirror d (mdb\<lparr>mdb_users := Inr us\<rparr>) = mout_us \<and>
      mout_u = mout_us \<and>
      generateCognitiveMirror d mdb =
        mout_us\<lparr>out_mirror_log := out_mirror_log mout_us
          @ [LogError ''Error generating cognitive mirror:'' e]\<rparr>)"
  using aggregate_job_stops [of db us u vs d out_us out_u e]
    aggregate_iteration_raises [of d db u out_us out_u e]
    mirror_job_stops [of mdb us u vs d mout_us mout_u e]
  by blast

theorem failing_user_ends_the_run_witness:
  "aggregateDailyHealthMetrics 100 echo_write_fails_db =
     (fst (aggregate_iteration 100 echo_write_fails_db ''u1''
        (fst (aggregate_loop 100 echo_write_fails_db [''u0''] capture_out_init))))
       \<lparr>out_log :=
          out_log (fst (aggregate_iteration 100 echo_write_fails_db ''u1''
            (fst (aggregate_loop 100 echo_write_fails_db [''u0''] capture_out_init))))
          @ [LogError ''Error aggregating daily health metrics:''
               (Exception ''write rejected'')]\<rparr> \<and>
   map rm_userId (out_rhythmMap (aggregateDailyHealthMetrics 100 echo_write_fails_db))
     = [''u0'', ''u1''] \<and>
   map he_userId (out_healthEcho (aggregateDailyHealthMetrics 100 echo_write_fails_db))
     = [''u0''] \<and>
   generateCognitiveMirror 100 mirror_write_fails_db =
     (fst (mirror_loop 100 mirror_write_fails_db [''u0''] mirror_out_init))
       \<lparr>out_mirror_log :=
          out_mirror_log (fst (mirror_loop 100 mirror_write_fails_db [''u0''] mirror_out_init))
          @ [LogError ''Error generating cognitive mirror:''
               (Exception ''write rejected'')]\<rparr> \<and>
   map cm_userId (out_cognitiveMirror (generateCognitiveMirror 100 mirror_write_fails_db))
     = [''u0'']"
proof -
  let ?db = echo_write_fails_db and ?mdb = mirror_write_fails_db
  let ?out_us = "fst (aggregate_loop 100 ?db [''u0''] capture_out_init)"
  let ?out_u = "fst (aggregate_iteration 100 ?db ''u1'' ?out_us)"
  let ?mout_us = "fst (mirror_loop 100 ?mdb [''u0''] mirror_out_init)"
  let ?mout_u = "fst (mirror_iteration 100 ?mdb ''u1'' ?mout_us)"
  have a: "db_users ?db = Inr ([''u0''] @ ''u1'' # [''u2''])"
    by (simp add: echo_write_fails_db_def)
  have b: "aggregate_loop 100 ?db [''u0''] capture_out_init = (?out_us, None)"
    by (simp add: echo_write_fails_db_def aggregate_iteration_def aggregate_user_def Let_def)
  have c: "aggregate_iteration 100 ?db ''u1'' ?out_us
      = (?out_u, Some (Exception ''write rejected''))"
    by (simp add: echo_write_fails_db_def aggregate_iteration_def aggregate_user_def Let_def)
  have a': "mdb_users ?mdb = Inr ([''u0''] @ ''u1'' # [''u2''])"
    by (simp add: mirror_write_fails_db_def)
  have b': "mirror_loop 100 ?mdb [''u0''] mirror_out_init = (?mout_us, None)"
    by (simp add: mirror_write_fails_db_def mirror_iteration_def fetch_passive_def
        mirror_user_def Let_def)
  have c': "mirror_iteration 100 ?mdb ''u1'' ?mout_us
      = (?mout_u, Some (Exception ''write rejected''))"
    by (simp add: mirror_write_fails_db_def mirror_iteration_def fetch_passive_def
        mirror_user_def Let_def)
  from failing_user_ends_the_run [of ?db "[''u0'']" "''u1''" "[''u2'']" 100 ?out_us ?out_u
      "Exception ''write rejected''" ?mdb ?mout_us ?mout_u] a b c a' b' c'
  have job: "aggregateDailyHealthMetrics 100 ?db =
        ?out_u\<lparr>out_log := out_log ?out_u
          @ [LogError ''Error aggregating daily health metrics:''
               (Exception ''write rejected'')]\<rparr>"
    and mjob: "generateCognitiveMirror 100 ?mdb =
        ?mout_us\<lparr>out_mirror_log := out_mirror_log ?mout_us
          @ [LogError ''Error generating cognitive mirror:''
               (Exception ''write rejected'')]\<rparr>"
    by blast+
  have rm: "map rm_userId (out_rhythmMap ?out_u) = [''u0'', ''u1'']"
    by (simp add: echo_write_fails_db_def aggregate_iteration_def aggregate_user_def
        capture_out_init_def Let_def)
  have he: "map he_userId (out_healthEcho ?out_u) = [''u0'']"
    by (simp add: echo_write_fails_db_def aggregate_iteration_def aggregate_user_def
        capture_out_init_def Let_def)
  have cm: "map cm_userId (out_cognitiveMirror ?mout_us) = [''u0'']"
    by (simp add: mirror_write_fails_db_def mirror_iteration_def fetch_passive_def
        mirror_user_def mirror_out_init_def Let_def)
  show ?thesis using job mjob rm he cm by simp
qed

text \<open>
  Three users, the store throwing on a query of the second: only the first user gets
  records, although the third has telemetry from which records would be built.
\<close>

theorem later_users_counterexample:
  "map rm_userId (out_rhythmMap (aggregateDailyHealthMetrics 100 failing_capture_db))
     = [''u0''] \<and>
   map he_userId (out_healthEcho (aggregateDailyHealthMetrics 100 failing_capture_db))
     = [''u0''] \<and>
   db_telemetryEvents failing_capture_db ''u2''
     = Inr [\<lparr>te_eventType = ''motion_event'', te_eventDuration = Some 3000\<rparr>] \<and>
   aggregate_user 100 ''u2'' [\<lparr>te_eventType = ''motion_event'', te_eventDuration = Some 3000\<rparr>]
     \<noteq> None \<and>
   map cm_userId (out_cognitiveMirror (generateCognitiveMirror 100 failing_mirror_db))
     = [''u0'']"
  by (simp add: aggregateDailyHealthMetrics_def failing_capture_db_def capture_out_init_def
      aggregate_iteration_def aggregate_user_def generateCognitiveMirror_def
      failing_mirror_db_def mirror_out_init_def mirror_iteration_def fetch_passive_def
      mirror_user_def Let_def)

section \<open>The recovery detector\<close>










section \<open>The forecast engine\<close>

lemma seasonal_confidence:
  "snd (seasonal_estimate sameDayHistory) \<in> {6 / 10, 7 / 10, 75 / 100}"
  by (simp add: seasonal_estimate_def Let_def)

lemma trend_adjust_confidence:
  "snd (trend_adjust trendSlope (mood, c)) = c \<or>
   snd (trend_adjust trendSlope (mood, c)) = c + 1 / 10"
  by (simp add: trend_adjust_def)

lemma trend_adjust_snd:
  "snd (trend_adjust trendSlope pc) = snd pc \<or>
   snd (trend_adjust trendSlope pc) = snd pc + 1 / 10"
  using trend_adjust_confidence [of trendSlope "fst pc" "snd pc"] by simp

lemma adjusted_confidence:
  "snd (trend_adjust trendSlope (seasonal_estimate sameDayHistory))
     \<in> {6 / 10, 7 / 10, 75 / 100, 8 / 10, 85 / 100}"
  using seasonal_confidence [of sameDayHistory]
    trend_adjust_snd [of trendSlope "seasonal_estimate sameDayHistory"]
  by auto

lemma stored_confidence:
  assumes "c \<in> {6 / 10, 7 / 10, 75 / 100, 8 / 10, 85 / 100 :: number}"
  shows "Math_round (c * 100) / 100 = c"
proof -
  have r60: "Math_round (6 / 10 * 100) / 100 = 6 / 10"
    using Math_round_int [of 60] by simp
  have r70: "Math_round (7 / 10 * 100) / 100 = 7 / 10"
    using Math_round_int [of 70] by simp
  have r75: "Math_round (75 / 100 * 100) / 100 = 75 / 100"
    using Math_round_int [of 75] by simp
  have r80: "Math_round (8 / 10 * 100) / 100 = 8 / 10"
    using Math_round_int [of 80] by simp
  have r85: "Math_round (85 / 100 * 100) / 100 = 85 / 100"
    using Math_round_int [of 85] by simp
  from assms consider "c = 6 / 10" | "c = 7 / 10" | "c = 75 / 100" | "c = 8 / 10"
    | "c = 85 / 100"
    by blast
  then show ?thesis
  proof cases
    case 1 show ?thesis unfolding 1 by (rule r60)
  next
    case 2 show ?thesis unfolding 2 by (rule r70)
  next
    case 3 show ?thesis unfolding 3 by (rule r75)
  next
    case 4 show ?thesis unfolding 4 by (rule r80)
  next
    case 5 show ?thesis unfolding 5 by (rule r85)
  qed
qed

lemma forecast_confidence:
  assumes "forecast_user today userId historicalData = Some f"
  shows "ef_confidence f \<in> {6 / 10, 7 / 10, 75 / 100, 8 / 10, 85 / 100}"
proof -
  from assms obtain slope sameDay
    where "ef_confidence f = Math_round (snd (trend_adjust slope (seasonal_estimate sameDay)) * 100) / 100"
    by (auto simp: forecast_user_def Let_def split: if_splits)
  with stored_confidence [OF adjusted_confidence [of slope sameDay]]
  have "ef_confidence f = snd (trend_adjust slope (seasonal_estimate sameDay))" by simp
  with adjusted_confidence [of slope sameDay] show ?thesis by simp
qed

lemma rising_85:
  "\<exists>f. forecast_user 0 ''u'' rising_history = Some f \<and> ef_confidence f = 85 / 100"
  using Math_round_int [of 85]
  by (simp add: forecast_user_def rising_history_def mk_mirror_def Let_def getDay_def
      seasonal_estimate_def trend_adjust_def average_of_def)

lemma flat_60:
  "\<exists>f. forecast_user 0 ''u'' flat_history = Some f \<and> ef_confidence f = 6 / 10"
  using Math_round_int [of 60]
  by (simp add: forecast_user_def flat_history_def mk_mirror_def Let_def getDay_def
      seasonal_estimate_def trend_adjust_def average_of_def)

text \<open>
  Claim C4. The confidence the Forecast Engine emits lies in \<open>[0, 1]\<close> for every history:
  the seasonal classification gives 0.6, 0.7 or 0.75, the trend adjustment adds 0.1 at most
  once (the rules for \<open>slope > 5\<close> and \<open>slope < -5\<close> are the two branches of one
  if / else-if), and the rounding to two decimals changes nothing. The emitted value is
  between 0.6 and 0.85, and both bounds are reached.
\<close>

theorem forecast_confidence_between_60_and_85:
  "snd (seasonal_estimate sameDayHistory) \<in> {6 / 10, 7 / 10, 75 / 100} \<and>
   (snd (trend_adjust trendSlope (mood, c)) = c \<or>
    snd (trend_adjust trendSlope (mood, c)) = c + 1 / 10) \<and>
   (forecast_user today userId historicalData = Some f \<longrightarrow>
      ef_confidence f \<in> {6 / 10, 7 / 10, 75 / 100, 8 / 10, 85 / 100} \<and>
      6 / 10 \<le> ef_confidence f \<and> ef_confidence f \<le> 85 / 100 \<and>
      0 \<le> ef_confidence f \<and> ef_confidence f \<le> 1) \<and>
   (\<exists>t u h g. forecast_user t u h = Some g \<and> ef_confidence g = 85 / 100) \<and>
   (\<exists>t u h g. forecast_user t u h = Some g \<and> ef_confidence g = 6 / 10)"
proof -
  have "ef_confidence f \<in> {6 / 10, 7 / 10, 75 / 100, 8 / 10, 85 / 100} \<and>
      6 / 10 \<le> ef_confidence f \<and> ef_confidence f \<le> 85 / 100 \<and>
      0 \<le> ef_confidence f \<and> ef_confidence f \<le> 1"
    if "forecast_user today userId historicalData = Some f"
    using forecast_confidence [OF that] by auto
  moreover have "\<exists>t u h g. forecast_user t u h = Some g \<and> ef_confidence g = 85 / 100"
    using rising_85 by blast
  moreover have "\<exists>t u h g. forecast_user t u h = Some g \<and> ef_confidence g = 6 / 10"
    using flat_60 by blast
  ultimately show ?thesis
    using seasonal_confidence [of sameDayHistory] trend_adjust_confidence [of trendSlope mood c]
    by blast
qed

theorem forecast_confidence_between_60_and_85_witness:
  "forecast_user 0 ''u'' rising_history \<noteq> None \<and>
   6 / 10 \<le> ef_confidence (the (forecast_user 0 ''u'' rising_history)) \<and>
   ef_confidence (the (forecast_user 0 ''u'' rising_history)) \<le> 85 / 100 \<and>
   ef_confidence (the (forecast_user 0 ''u'' rising_history)) \<le> 1"
proof -
  have ne: "forecast_user 0 ''u'' rising_history \<noteq> None"
    by (simp add: forecast_user_def rising_history_def Let_def)
  then have "forecast_user 0 ''u'' rising_history
      = Some (the (forecast_user 0 ''u'' rising_history))"
    by simp
  with forecast_confidence_between_60_and_85 [of _ _ _ _ 0 "''u''" rising_history
      "the (forecast_user 0 ''u'' rising_history)"] ne
  show ?thesis by blast
qed

lemma forecast_user_skip: "forecast_user today userId h = None \<longleftrightarrow> length h < 7"
  by (simp add: forecast_user_def Let_def)

lemma forecast_user_record:
  "forecast_user today userId h = Some f \<Longrightarrow> ef_userId f = userId \<and> ef_date f = today + 1"
  by (auto simp: forecast_user_def Let_def split: if_splits)

text \<open>Whatever the run, a record written comes from a history that was returned.\<close>

lemma forecast_iteration_written:
  "forecast_iteration today db u out = (out', r) \<Longrightarrow>
   f \<in> set (out_emotionForecast out') \<Longrightarrow>
   f \<in> set (out_emotionForecast out) \<or>
   (\<exists>h. fdb_cognitiveMirror db u = Inr h \<and> forecast_user today u h = Some f)"
  by (auto simp: forecast_iteration_def split: sum.splits option.splits prod.splits)

lemma forecast_loop_written:
  "forecast_loop today db users out = (out', r) \<Longrightarrow>
   f \<in> set (out_emotionForecast out') \<Longrightarrow>
   f \<in> set (out_emotionForecast out) \<or>
   (\<exists>u h. fdb_cognitiveMirror db u = Inr h \<and> forecast_user today u h = Some f)"
proof (induction users arbitrary: out)
  case Nil
  then show ?case by simp
next
  case (Cons u rest)
  obtain out1 r1 where it: "forecast_iteration today db u out = (out1, r1)"
    by (cases "forecast_iteration today db u out")
  show ?case
  proof (cases r1)
    case None
    with it Cons.prems(1) have "forecast_loop today db rest out1 = (out', r)" by simp
    from Cons.IH [OF this Cons.prems(2)] forecast_iteration_written [OF it]
    show ?thesis by blast
  next
    case (Some e)
    with it Cons.prems(1) have "out' = out1" by simp
    with forecast_iteration_written [OF it] Cons.prems(2) show ?thesis by blast
  qed
qed

lemma forecast_job_written:
  assumes "f \<in> set (out_emotionForecast (generateEmotionForecast today db))"
  shows "ef_date f = today + 1 \<and>
         (\<exists>h. fdb_cognitiveMirror db (ef_userId f) = Inr h \<and> 7 \<le> length h)"
proof (cases "fdb_users db")
  case (Inl e)
  with assms show ?thesis
    by (simp add: generateEmotionForecast_def forecast_out_init_def)
next
  case (Inr users)
  obtain out r where l: "forecast_loop today db users forecast_out_init = (out, r)"
    by (cases "forecast_loop today db users forecast_out_init")
  with Inr assms have "f \<in> set (out_emotionForecast out)"
    by (cases r) (simp_all add: generateEmotionForecast_def)
  from forecast_loop_written [OF l this]
  obtain u h where h: "fdb_cognitiveMirror db u = Inr h" and f: "forecast_user today u h = Some f"
    by (auto simp: forecast_out_init_def)
  from f forecast_user_skip [of today u h] have "7 \<le> length h" by simp
  with h forecast_user_record [OF f] show ?thesis by auto
qed

text \<open>A run in which no operation of the store throws.\<close>

lemma forecast_loop_all:
  assumes "\<forall>u \<in> set us. fdb_cognitiveMirror db u = Inr (history u)"
    and "\<forall>f. fdb_set_emotionForecast db f = None"
  shows "snd (forecast_loop today db us out) = None \<and>
         out_emotionForecast (fst (forecast_loop today db us out)) =
           out_emotionForecast out
             @ List.map_filter (\<lambda>u. forecast_user today u (history u)) us"
  using assms(1)
proof (induction us arbitrary: out)
  case Nil
  show ?case by simp
next
  case (Cons u us)
  then have q: "fdb_cognitiveMirror db u = Inr (history u)"
    and rest: "\<forall>v \<in> set us. fdb_cognitiveMirror db v = Inr (history v)"
    by simp_all
  show ?case
  proof (cases "forecast_user today u (history u)")
    case None
    with q Cons.IH [OF rest, of out] show ?thesis by (simp add: forecast_iteration_def)
  next
    case (Some f)
    let ?out = "out\<lparr>out_emotionForecast := out_emotionForecast out @ [f],
                    out_forecast_log := out_forecast_log out
                      @ [LogInfo (''Emotion forecast generated for user '' @ u @ '': ''
                           @ ef_predictedMood f)]\<rparr>"
    from q Some assms(2) Cons.IH [OF rest, of ?out] show ?thesis
      by (simp add: forecast_iteration_def)
  qed
qed

lemma forecast_job_all:
  assumes "fdb_users db = Inr users"
    and "\<forall>u \<in> set users. fdb_cognitiveMirror db u = Inr (history u)"
    and "\<forall>f. fdb_set_emotionForecast db f = None"
  shows "out_emotionForecast (generateEmotionForecast today db) =
           List.map_filter (\<lambda>u. forecast_user today u (history u)) users"
proof -
  obtain out r
    where l: "forecast_loop today db users forecast_out_init = (out, r)"
    by (cases "forecast_loop today db users forecast_out_init")
  with forecast_loop_all [OF assms(2,3), of today forecast_out_init]
  have "r = None" and "out_emotionForecast out =
      List.map_filter (\<lambda>u. forecast_user today u (history u)) users"
    by (simp_all add: forecast_out_init_def)
  with assms(1) l show ?thesis by (simp add: generateEmotionForecast_def)
qed

lemma filter_map_filter_other:
  assumes "u \<notin> set us" and "\<And>v f. g v = Some f \<Longrightarrow> key f = v"
  shows "filter (\<lambda>f. key f = u) (List.map_filter g us) = []"
  using assms(1)
proof (induction us)
  case Nil
  show ?case by simp
next
  case (Cons v us)
  then show ?case using assms(2) [of v]
    by (cases "g v") auto
qed

lemma filter_map_filter_own:
  assumes "distinct us" and "u \<in> set us" and "\<And>v f. g v = Some f \<Longrightarrow> key f = v"
  shows "filter (\<lambda>f. key f = u) (List.map_filter g us) =
           (case g u of None \<Rightarrow> [] | Some f \<Rightarrow> [f])"
  using assms(1,2)
proof (induction us)
  case Nil
  then show ?case by simp
next
  case (Cons v us)
  show ?case
  proof (cases "v = u")
    case True
    with Cons.prems have "u \<notin> set us" by simp
    from filter_map_filter_other [OF this assms(3)] True assms(3) [of u]
    show ?thesis by (cases "g u") auto
  next
    case False
    with Cons have "filter (\<lambda>f. key f = u) (List.map_filter g us) =
           (case g u of None \<Rightarrow> [] | Some f \<Rightarrow> [f])" by simp
    with False assms(3) [of v] show ?thesis
      by (cases "g v") auto
  qed
qed

lemma forecast_job_one_each:
  assumes "fdb_users db = Inr users" and "distinct users"
    and "\<forall>u \<in> set users. fdb_cognitiveMirror db u = Inr (history u)"
    and "\<forall>f. fdb_set_emotionForecast db f = None"
    and u: "u \<in> set users"
  shows "(length (history u) < 7 \<longrightarrow>
        filter (\<lambda>f. ef_userId f = u) (out_emotionForecast (generateEmotionForecast today db))
          = []) \<and>
     (7 \<le> length (history u) \<longrightarrow>
        (\<exists>f. filter (\<lambda>f. ef_userId f = u)
               (out_emotionForecast (generateEmotionForecast today db)) = [f] \<and>
             ef_date f = today + 1))"
proof -
  let ?g = "\<lambda>u. forecast_user today u (history u)"
  have key: "\<And>v f. ?g v = Some f \<Longrightarrow> ef_userId f = v"
    by (simp add: forecast_user_record)
  have own: "filter (\<lambda>f. ef_userId f = u) (out_emotionForecast (generateEmotionForecast today db))
      = (case ?g u of None \<Rightarrow> [] | Some f \<Rightarrow> [f])"
    using filter_map_filter_own [OF assms(2) u key]
    by (simp add: forecast_job_all [OF assms(1,3,4)])
  show ?thesis
  proof (cases "?g u")
    case None
    with own forecast_user_skip [of today u "history u"] show ?thesis by simp
  next
    case (Some f)
    with own forecast_user_skip [of today u "history u"]
      forecast_user_record [of today u "history u" f]
    show ?thesis by simp
  qed
qed

text \<open>
  Claim C5, as the code has it. In every run, each EmotionForecast record written is dated
  tomorrow and belongs to a user whose history query returned 7 or more CognitiveMirror
  records: a user whose trailing 30 days contain fewer than 7 records is skipped and gets
  no forecast. In a run in which no operation of the store throws, a user with 7 or more
  records gets exactly one forecast record, for tomorrow's date.
\<close>

theorem forecast_needs_seven_days:
  "(\<forall>f \<in> set (out_emotionForecast (generateEmotionForecast today db)).
      ef_date f = today + 1 \<and>
      (\<exists>h. fdb_cognitiveMirror db (ef_userId f) = Inr h \<and> 7 \<le> length h)) \<and>
   (fdb_users db = Inr users \<and> distinct users \<and>
    (\<forall>u \<in> set users. fdb_cognitiveMirror db u = Inr (history u)) \<and>
    (\<forall>f. fdb_set_emotionForecast db f = None) \<longrightarrow>
      (\<forall>u \<in> set users.
         (length (history u) < 7 \<longrightarrow>
            filter (\<lambda>f. ef_userId f = u)
              (out_emotionForecast (generateEmotionForecast today db)) = []) \<and>
         (7 \<le> length (history u) \<longrightarrow>
            (\<exists>f. filter (\<lambda>f. ef_userId f = u)
                   (out_emotionForecast (generateEmotionForecast today db)) = [f] \<and>
                 ef_date f = today + 1))))"
  using forecast_job_written [of _ today db]
    forecast_job_one_each [of db users history _ today]
  by blast

theorem forecast_needs_seven_days_witness:
  "length (take 6 flat_history) = 6 \<and>
   filter (\<lambda>f. ef_userId f = ''a'') (out_emotionForecast (generateEmotionForecast 0 six_days_db))
     = [] \<and>
   length flat_history = 7 \<and>
   map ef_date (filter (\<lambda>f. ef_userId f = ''b'')
     (out_emotionForecast (generateEmotionForecast 0 six_days_db))) = [1]"
proof -
  let ?history = "\<lambda>userId. if userId = ''a'' then take 6 flat_history else flat_history"
  have users: "fdb_users six_days_db = Inr [''a'', ''b'']"
    by (simp add: six_days_db_def)
  have d: "distinct [''a'', ''b'']" by simp
  have h: "\<forall>u \<in> set [''a'', ''b'']. fdb_cognitiveMirror six_days_db u = Inr (?history u)"
    by (simp add: six_days_db_def)
  have w: "\<forall>f. fdb_set_emotionForecast six_days_db f = None"
    by (simp add: six_days_db_def)
  have la: "length (?history ''a'') = 6" and lb: "length (?history ''b'') = 7"
    by (simp_all add: flat_history_def)
  from forecast_needs_seven_days [of 0 six_days_db "[''a'', ''b'']" ?history] users d h w
  have "\<forall>u \<in> set [''a'', ''b''].
         (length (?history u) < 7 \<longrightarrow>
            filter (\<lambda>f. ef_userId f = u)
              (out_emotionForecast (generateEmotionForecast 0 six_days_db)) = []) \<and>
         (7 \<le> length (?history u) \<longrightarrow>
            (\<exists>f. filter (\<lambda>f. ef_userId f = u)
                   (out_emotionForecast (generateEmotionForecast 0 six_days_db)) = [f] \<and>
                 ef_date f = 0 + 1))"
    by blast
  with la lb
  have "filter (\<lambda>f. ef_userId f = ''a'')
          (out_emotionForecast (generateEmotionForecast 0 six_days_db)) = []"
    and "\<exists>f. filter (\<lambda>f. ef_userId f = ''b'')
          (out_emotionForecast (generateEmotionForecast 0 six_days_db)) = [f] \<and> ef_date f = 0 + 1"
    by simp_all
  then show ?thesis by (auto simp: flat_history_def)
qed

text \<open>
  Two users, the history query of the first throwing: the second has seven records in its
  trailing 30 days and gets no forecast, because the exception ended the run.
\<close>

theorem forecast_after_exception_counterexample:
  "fdb_users throwing_history_db = Inr [''a'', ''b''] \<and>
   fdb_cognitiveMirror throwing_history_db ''b'' = Inr flat_history \<and>
   length flat_history = 7 \<and>
   out_emotionForecast (generateEmotionForecast 0 throwing_history_db) = []"
  by (simp add: throwing_history_db_def flat_history_def generateEmotionForecast_def
      forecast_iteration_def forecast_out_init_def)

section \<open>The life-event detector\<close>

lemma lifeEvents_flagged:
  "lifeEvents_user today userId docs \<noteq> [] \<longleftrightarrow>
     14 \<le> length docs \<and>
     (js_greater (js_abs (moodShift_of docs)) (Finite 25) \<or>
      js_greater (js_abs (stressShift_of docs)) (Finite 20))"
  by (simp add: lifeEvents_user_def detectedEvents_of_def Let_def)

lemma lifeEvents_type:
  "map le_eventType (lifeEvents_user today userId docs) =
     (if lifeEvents_user today userId docs = [] then []
      else [eventType_of (moodShift_of docs) (stressShift_of docs)])"
  by (simp add: lifeEvents_user_def detectedEvents_of_def Let_def)

text \<open>
  Claim C6, as the code has it. For a user with at least 14 records in the trailing four
  weeks the Life Event detector flags an event exactly when \<open>|moodShift| > 25\<close> or
  \<open>|stressShift| > 20\<close>, the shifts being the average of the second half minus the
  average of the first half as double-precision arithmetic computes them; with fewer than
  14 records it flags nothing. The event is classified by the chain positive_life_change,
  challenging_life_event, major_stress_shift, significant_mood_change,
  unknown_transition, which gives unknown_transition for \<open>moodShift = 26\<close> and
  \<open>stressShift = 16\<close>.
\<close>

theorem lifeEvent_flagged_and_classified:
  "(lifeEvents_user today userId docs \<noteq> [] \<longleftrightarrow>
      14 \<le> length docs \<and>
      (js_greater (js_abs (moodShift_of docs)) (Finite 25) \<or>
       js_greater (js_abs (stressShift_of docs)) (Finite 20))) \<and>
   map le_eventType (lifeEvents_user today userId docs) =
     (if lifeEvents_user today userId docs = [] then []
      else [eventType_of (moodShift_of docs) (stressShift_of docs)]) \<and>
   moodShift_of docs =
     js_sub (average_double cm_moodScore (drop (length docs div 2) docs))
       (average_double cm_moodScore (take (length docs div 2) docs)) \<and>
   stressShift_of docs =
     js_sub (average_double cm_stressIndex (drop (length docs div 2) docs))
       (average_double cm_stressIndex (take (length docs div 2) docs)) \<and>
   eventType_of moodShift stressShift =
     (if js_greater moodShift (Finite 25) \<and> js_less stressShift (Finite (- 15))
      then ''positive_life_change''
      else if js_less moodShift (Finite (- 25)) \<and> js_greater stressShift (Finite 15)
      then ''challenging_life_event''
      else if js_greater (js_abs stressShift) (Finite 25) then ''major_stress_shift''
      else if js_greater (js_abs moodShift) (Finite 30) then ''significant_mood_change''
      else ''unknown_transition'') \<and>
   eventType_of (Finite 26) (Finite 16) = ''unknown_transition''"
  using lifeEvents_flagged [of today userId docs] lifeEvents_type [of today userId docs]
  by (simp add: eventType_of_def moodShift_of_def stressShift_of_def Let_def js_greater_def)

lemma shift_docs_shifts:
  "moodShift_of shift_docs = Finite 26 \<and> stressShift_of shift_docs = Finite 16"
  by code_simp

theorem lifeEvent_flagged_and_classified_witness:
  "14 \<le> length shift_docs \<and>
   moodShift_of shift_docs = Finite 26 \<and> stressShift_of shift_docs = Finite 16 \<and>
   map le_eventType (lifeEvents_user 0 ''u'' shift_docs) = [''unknown_transition'']"
  using lifeEvent_flagged_and_classified [of 0 "''u''" shift_docs] shift_docs_shifts
  by (simp add: shift_docs_def js_greater_def)

text \<open>
  Two records with moods 0 and 100: the mood shift is 100, and no event is flagged.
\<close>

theorem lifeEvent_short_history_counterexample:
  "moodShift_of two_docs = Finite 100 \<and>
   js_greater (js_abs (moodShift_of two_docs)) (Finite 25) \<and>
   lifeEvents_user 0 ''u'' two_docs = []"
  by code_simp

text \<open>
  Rounding decides at the threshold. With moods 8, 7, 7, 7, 7, 7, 7 in the first half and
  33, 32, 32, 32, 32, 32, 32 in the second the exact shift is 25; the quotients
  \<open>225 / 7\<close> and \<open>50 / 7\<close> are rounded, their difference is \<open>25 + 2^-48\<close>, and an event is
  flagged.
\<close>

lemma boundary_docs_flagged:
  "moodShift_of boundary_docs = Finite (25 + 1 / 2 ^ 48) \<and>
   stressShift_of boundary_docs = Finite 0 \<and>
   map le_eventType (lifeEvents_user 0 ''u'' boundary_docs) = [''unknown_transition'']"
  by code_simp

end
